theory Spec2Isabelle
  imports Main
begin

section \<open>Grocery management pipeline: data model\<close>

text \<open>
  The script \<open>src/app/app.py\<close> wires four agents and four tasks of an external agent
  framework into a crew and starts it. The framework's classes are validated models:
  a constructor call checks the keyword arguments against the fields the class
  declares, keeps the declared ones, drops a keyword that names no field, and raises a
  validation error when a value does not have the type of its field. The model keeps
  the keyword arguments of each call as the script writes them (a keyword the script
  leaves out is \<open>None\<close>) and applies the constructor to them. The two library
  functions the script calls for their result, \<open>markdown\<close> and \<open>Crew.kickoff\<close>,
  are parameters of the functions that call them.
\<close>

datatype tool = WebsiteSearchTool (website: string)

text \<open>The keyword arguments the script gives to \<open>Agent(...)\<close>.\<close>

record agent_kwargs =
  role :: string
  goal :: string
  backstory :: string
  personality :: string
  allow_delegation :: bool
  verbose :: bool
  tools :: "tool list option"
  human_input :: "bool option"

text \<open>The agent that is built. Of the keywords above the class declares \<open>role\<close>,
  \<open>goal\<close>, \<open>backstory\<close>, \<open>allow_delegation\<close>, \<open>verbose\<close> and \<open>tools\<close>; it
  declares no field \<open>personality\<close> and no field \<open>human_input\<close>, so these two
  keywords are dropped.\<close>

record agent =
  agent_role :: string
  agent_goal :: string
  agent_backstory :: string
  agent_allow_delegation :: bool
  agent_verbose :: bool
  agent_tools :: "tool list option"

definition Agent :: "agent_kwargs \<Rightarrow> agent" where
  "Agent kw = \<lparr>
     agent_role = role kw,
     agent_goal = goal kw,
     agent_backstory = backstory kw,
     agent_allow_delegation = allow_delegation kw,
     agent_verbose = verbose kw,
     agent_tools = tools kw\<rparr>"

text \<open>The values the script gives as \<open>expected_output\<close>: strings, lists, and
  dictionaries in insertion order.\<close>

datatype pyval =
    PStr string
  | PList "pyval list"
  | PDict "(string \<times> pyval) list"

text \<open>A task that has been built. The class declares \<open>expected_output\<close> as a
  string.\<close>

datatype task = BuiltTask
  (task_agent: agent)
  (task_description: string)
  (task_expected_output: string)
  (task_context: "task list option")
  (task_human_input: "bool option")
  (task_output_file: "string option")

text \<open>The keyword arguments the script gives to \<open>Task(...)\<close>.\<close>

record task_kwargs =
  kw_agent :: agent
  kw_description :: string
  kw_expected_output :: pyval
  kw_context :: "task list option"
  kw_human_input :: "bool option"
  kw_output_file :: "string option"

type_synonym agents = "agent \<times> agent \<times> agent \<times> agent"

record crew =
  crew_agents :: "agent list"
  crew_tasks :: "task list"
  crew_verbose :: bool

text \<open>A file as \<open>open(path, 'r')\<close> and \<open>read()\<close> meet it: text, bytes that do
  not decode as text, or a file the process may not read.\<close>

datatype file_entry =
    Text string
  | Undecodable
  | NoPermission

text \<open>The process state the script can touch: \<open>os.environ\<close>, the files by path, the
  command line, and what has been printed.\<close>

record world =
  environ :: "string \<rightharpoonup> string"
  files :: "string \<rightharpoonup> file_entry"
  argv :: "string list"
  stdout :: "string list"

datatype error =
    FileNotFoundError string
  | PermissionError string
  | UnicodeDecodeError string
  | ValidationError string
  | FrameworkError string

text \<open>\<open>Task(...)\<close>: the value given as \<open>expected_output\<close> must be a string;
  a dictionary or a list is refused with a validation error naming the field.\<close>

definition Task :: "task_kwargs \<Rightarrow> error + task" where
  "Task kw =
     (case kw_expected_output kw of
        PStr s \<Rightarrow>
          Inr (BuiltTask (kw_agent kw) (kw_description kw) s (kw_context kw)
                 (kw_human_input kw) (kw_output_file kw))
      | PList _ \<Rightarrow> Inl (ValidationError ''expected_output'')
      | PDict _ \<Rightarrow> Inl (ValidationError ''expected_output''))"

type_synonym 'r kickoff = "crew \<Rightarrow> world \<Rightarrow> (error + 'r) \<times> world"

section \<open>Step 1: environment setup\<close>

definition setup_environment :: "world \<Rightarrow> world" where
  "setup_environment w =
     (let w1 = w\<lparr>environ := (environ w)(''OPENAI_API_KEY'' \<mapsto> ''[YOUR OPENAI API KEY]'')\<rparr>
      in w1\<lparr>environ := (environ w1)(''LLAMA_OCR_API_KEY'' \<mapsto> ''[YOUR LLAMA OCR API KEY]'')\<rparr>)"

section \<open>Step 2: loading the receipt\<close>

text \<open>\<open>open(file_path, 'r')\<close> raises when there is no file at the path or the file
  may not be read, and \<open>f.read()\<close> raises when the bytes do not decode; nothing in
  \<open>load_receipt\<close> catches either. The first argument stands for the library's
  \<open>markdown\<close>.\<close>

definition load_receipt :: "(string \<Rightarrow> string) \<Rightarrow> world \<Rightarrow> string \<Rightarrow> error + string" where
  "load_receipt markdown w file_path =
     (case files w file_path of
        None \<Rightarrow> Inl (FileNotFoundError file_path)
      | Some NoPermission \<Rightarrow> Inl (PermissionError file_path)
      | Some Undecodable \<Rightarrow> Inl (UnicodeDecodeError file_path)
      | Some (Text contents) \<Rightarrow> Inr (markdown contents))"

section \<open>Step 3: the agents\<close>

definition receipt_interpreter_agent :: agent where
  "receipt_interpreter_agent = Agent \<lparr>
     role = ''Receipt Markdown Interpreter'',
     goal = ''Extract items, their counts, and weights with units from a receipt in markdown format. ''
          @ ''Provide structured data to support the grocery management system.'',
     backstory = ''As a key member of the grocery management crew, this agent extracts details such as item names, ''
          @ ''quantities, and weights from receipt markdown files. Its role is vital for tracking inventory levels.'',
     personality = ''Diligent, detail-oriented, and efficient.'',
     allow_delegation = False,
     verbose = True,
     tools = None,
     human_input = None\<rparr>"

definition expiration_date_search_web_tool :: tool where
  "expiration_date_search_web_tool = WebsiteSearchTool ''https://www.stilltasty.com/''"

definition expiration_date_search_agent :: agent where
  "expiration_date_search_agent = Agent \<lparr>
     role = ''Expiration Date Estimation Specialist'',
     goal = ''Estimate the expiration dates of items extracted by the Receipt Interpreter Agent. ''
          @ ''Utilize online sources to determine typical shelf life when refrigerated.'',
     backstory = ''This agent ensures groceries are consumed before expiration by searching for shelf-life estimates online.'',
     personality = ''Meticulous, resourceful, and reliable.'',
     allow_delegation = False,
     verbose = True,
     tools = Some [expiration_date_search_web_tool],
     human_input = None\<rparr>"

definition grocery_tracker_agent :: agent where
  "grocery_tracker_agent = Agent \<lparr>
     role = ''Grocery Inventory Tracker'',
     goal = ''Track remaining groceries based on user consumption input. ''
          @ ''Update the inventory list and provide expiration dates.'',
     backstory = ''This agent ensures groceries are accurately tracked, minimizing waste and helping users stay organized.'',
     personality = ''Helpful, detail-oriented, and responsive.'',
     allow_delegation = False,
     verbose = True,
     tools = None,
     human_input = None\<rparr>"

definition recipe_web_tool :: tool where
  "recipe_web_tool = WebsiteSearchTool ''https://www.americastestkitchen.com/recipes''"

definition recipe_recommendation_agent :: agent where
  "recipe_recommendation_agent = Agent \<lparr>
     role = ''Grocery Recipe Recommendation Specialist'',
     goal = ''Recommend recipes using available ingredients. ''
          @ ''Suggest restocking recommendations if ingredients are insufficient.'',
     backstory = ''This agent helps households make the most out of their remaining groceries by finding suitable recipes.'',
     personality = ''Creative, resourceful, and efficient.'',
     allow_delegation = False,
     verbose = True,
     tools = Some [recipe_web_tool],
     human_input = Some True\<rparr>"

definition create_agents :: agents where
  "create_agents =
     (receipt_interpreter_agent,
      expiration_date_search_agent,
      grocery_tracker_agent,
      recipe_recommendation_agent)"

section \<open>Step 4: the tasks\<close>

definition read_receipt_expected_output :: pyval where
  "read_receipt_expected_output = PDict [
     (''items'', PList [PDict [
        (''item_name'', PStr ''string - Human-readable name of the item''),
        (''count'', PStr ''integer - Number of units purchased''),
        (''unit'', PStr ''string - Unit of measurement (e.g., kg, lbs, pcs)'')]]),
     (''date_of_purchase'', PStr ''string - Date in YYYY-MM-DD format'')]"

definition expiration_date_search_expected_output :: pyval where
  "expiration_date_search_expected_output = PDict [
     (''items'', PList [PDict [
        (''item_name'', PStr ''string - Human-readable name of the item''),
        (''count'', PStr ''integer - Number of units purchased''),
        (''unit'', PStr ''string - Unit of measurement (e.g., kg, lbs, pcs)''),
        (''expiration_date'', PStr ''string - Estimated expiration date in YYYY-MM-DD format'')]])]"

definition grocery_tracking_expected_output :: pyval where
  "grocery_tracking_expected_output = PDict [
     (''items'', PList [PDict [
        (''item_name'', PStr ''string - Human-readable name of the item''),
        (''count'', PStr ''integer - Updated number of units remaining''),
        (''unit'', PStr ''string - Unit of measurement (e.g., kg, lbs, pcs)''),
        (''expiration_date'', PStr ''string - Estimated expiration date in YYYY-MM-DD format'')]])]"

definition recipe_recommendation_expected_output :: pyval where
  "recipe_recommendation_expected_output = PDict [
     (''recipes'', PList [PDict [
        (''recipe_name'', PStr ''string - Name of the recipe''),
        (''ingredients'', PList [PDict [
           (''item_name'', PStr ''string - Ingredient name''),
           (''quantity'', PStr ''string - Quantity required''),
           (''unit'', PStr ''string - Measurement unit (e.g., kg, pcs, tbsp)'')]]),
        (''steps'', PList [PStr ''string - Step-by-step instructions for the recipe'']),
        (''source'', PStr ''string - Website URL for the recipe'')]]),
     (''restock_recommendations'', PList [PDict [
        (''item_name'', PStr ''string - Name of the item to restock''),
        (''quantity_needed'', PStr ''integer - Suggested quantity to purchase''),
        (''unit'', PStr ''string - Measurement unit (e.g., kg, pcs)'')]])]"

text \<open>Each \<open>Task(...)\<close> call is evaluated in turn; the first one that raises ends
  \<open>define_tasks\<close>, which has no handler.\<close>

definition define_tasks :: "string \<Rightarrow> string \<Rightarrow> agents \<Rightarrow> error + task list" where
  "define_tasks receipt_markdown today ags =
     (case ags of (receipt_interpreter, expiration_date_search, grocery_tracker, recipe_recommendation) \<Rightarrow>
      (case Task \<lparr>
             kw_agent = receipt_interpreter,
             kw_description =
               ''Analyze the receipt markdown file: '' @ receipt_markdown @ ''. ''
               @ ''Extract information on items purchased, their counts, weights, and units. ''
               @ ''Today's date is '' @ today @ ''. Ensure all item names are clear and human-readable.'',
             kw_expected_output = read_receipt_expected_output,
             kw_context = None,
             kw_human_input = None,
             kw_output_file = None\<rparr> of
        Inl e \<Rightarrow> Inl e
      | Inr read_receipt_task \<Rightarrow>
      (case Task \<lparr>
             kw_agent = expiration_date_search,
             kw_description =
               ''Using the list of items extracted by the Receipt Interpreter Agent, search online to find the typical shelf life of each item. ''
               @ ''Add this information to the purchase date to estimate the expiration date for each item.'',
             kw_expected_output = expiration_date_search_expected_output,
             kw_context = Some [read_receipt_task],
             kw_human_input = None,
             kw_output_file = None\<rparr> of
        Inl e \<Rightarrow> Inl e
      | Inr expiration_date_search_task \<Rightarrow>
      (case Task \<lparr>
             kw_agent = grocery_tracker,
             kw_description =
               ''Using the grocery list with expiration dates, update the inventory based on user input about consumed items. ''
               @ ''Subtract consumed quantities and provide a summary of what's left, including expiration dates.'',
             kw_expected_output = grocery_tracking_expected_output,
             kw_context = Some [expiration_date_search_task],
             kw_human_input = Some True,
             kw_output_file = Some ''../data/grocery_management_agents_system/output/grocery_tracker.json''\<rparr> of
        Inl e \<Rightarrow> Inl e
      | Inr grocery_tracking_task \<Rightarrow>
      (case Task \<lparr>
             kw_agent = recipe_recommendation,
             kw_description =
               ''Using the updated grocery list, search online for recipes that utilize available ingredients. ''
               @ ''If no suitable recipe can be found, provide restocking recommendations.'',
             kw_expected_output = recipe_recommendation_expected_output,
             kw_context = Some [grocery_tracking_task],
             kw_human_input = None,
             kw_output_file = Some ''../data/grocery_management_agents_system/output/recipe_recommendation.json''\<rparr> of
        Inl e \<Rightarrow> Inl e
      | Inr recipe_recommendation_task \<Rightarrow>
          Inr [read_receipt_task,
               expiration_date_search_task,
               grocery_tracking_task,
               recipe_recommendation_task])))))"

section \<open>Step 5: running the crew\<close>

text \<open>\<open>crew.kickoff()\<close> belongs to the framework: it is handed the crew and the process
  state, and either raises or returns a result, leaving a new process state.\<close>

definition run_crew :: "'r kickoff \<Rightarrow> task list \<Rightarrow> agents \<Rightarrow> world \<Rightarrow> (error + 'r) \<times> world" where
  "run_crew kickoff tasks ags w =
     kickoff \<lparr>crew_agents = (case ags of (a, b, c, d) \<Rightarrow> [a, b, c, d]),
              crew_tasks = tasks,
              crew_verbose = True\<rparr> w"

section \<open>Main execution\<close>

text \<open>What a run of the main block leaves behind: the exception that ended it, if
  any, the module-level variables it has bound so far, and the process state.\<close>

record 'r outcome =
  raised :: "error option"
  g_receipt_file_path :: "string option"
  g_receipt_markdown :: "string option"
  g_today :: "string option"
  g_agents :: "agents option"
  g_tasks :: "task list option"
  g_result :: "'r option"
  final :: world

definition receipt_file_path :: string where
  "receipt_file_path = ''../data/grocery_management_agents_system/extracted/grocery_receipt.md''"

definition main :: "(string \<Rightarrow> string) \<Rightarrow> 'r kickoff \<Rightarrow> world \<Rightarrow> 'r outcome" where
  "main markdown kickoff w =
     (let w1 = setup_environment w
      in case load_receipt markdown w1 receipt_file_path of
           Inl e \<Rightarrow>
             \<lparr>raised = Some e,
              g_receipt_file_path = Some receipt_file_path,
              g_receipt_markdown = None,
              g_today = None,
              g_agents = None,
              g_tasks = None,
              g_result = None,
              final = w1\<rparr>
         | Inr receipt_markdown \<Rightarrow>
             let today = ''2024-11-16'';
                 ags = create_agents
             in (case define_tasks receipt_markdown today ags of
                   Inl e \<Rightarrow>
                     \<lparr>raised = Some e,
                      g_receipt_file_path = Some receipt_file_path,
                      g_receipt_markdown = Some receipt_markdown,
                      g_today = Some today,
                      g_agents = Some ags,
                      g_tasks = None,
                      g_result = None,
                      final = w1\<rparr>
                 | Inr tasks \<Rightarrow>
                     (case run_crew kickoff tasks ags w1 of
                        (Inl e, w2) \<Rightarrow>
                          \<lparr>raised = Some e,
                           g_receipt_file_path = Some receipt_file_path,
                           g_receipt_markdown = Some receipt_markdown,
                           g_today = Some today,
                           g_agents = Some ags,
                           g_tasks = Some tasks,
                           g_result = None,
                           final = w2\<rparr>
                      | (Inr r, w2) \<Rightarrow>
                          \<lparr>raised = None,
                           g_receipt_file_path = Some receipt_file_path,
                           g_receipt_markdown = Some receipt_markdown,
                           g_today = Some today,
                           g_agents = Some ags,
                           g_tasks = Some tasks,
                           g_result = Some r,
                           final = w2\<lparr>stdout := stdout w2
                             @ [''Crew execution completed. Results saved to output files.'']\<rparr>\<rparr>)))"

section \<open>Properties\<close>

subsection \<open>Environment setup and loading\<close>

lemma environ_setup_environment:
  "environ (setup_environment w) =
     (environ w)(''OPENAI_API_KEY'' \<mapsto> ''[YOUR OPENAI API KEY]'',
                 ''LLAMA_OCR_API_KEY'' \<mapsto> ''[YOUR LLAMA OCR API KEY]'')"
  by (simp add: setup_environment_def Let_def)

lemma files_setup_environment: "files (setup_environment w) = files w"
  by (simp add: setup_environment_def Let_def)

lemma argv_setup_environment: "argv (setup_environment w) = argv w"
  by (simp add: setup_environment_def Let_def)

lemma stdout_setup_environment: "stdout (setup_environment w) = stdout w"
  by (simp add: setup_environment_def Let_def)


lemma load_receipt_setup_environment:
  "load_receipt markdown (setup_environment w) file_path = load_receipt markdown w file_path"
  by (simp add: load_receipt_def files_setup_environment)


lemma load_receipt_environ_update:
  "load_receipt markdown (w\<lparr>environ := e\<rparr>) file_path = load_receipt markdown w file_path"
  by (simp add: load_receipt_def)

subsection \<open>Task construction\<close>

text \<open>A string as \<open>expected_output\<close> is accepted and every keyword is kept; a
  dictionary is refused. All four \<open>expected_output\<close> values of the script are
  dictionaries, so \<open>define_tasks\<close> ends at its first \<open>Task(...)\<close>.\<close>

lemma Task_accepts_string:
  "Task \<lparr>kw_agent = a, kw_description = d, kw_expected_output = PStr s, kw_context = c,
         kw_human_input = h, kw_output_file = f\<rparr> = Inr (BuiltTask a d s c h f)"
  by (simp add: Task_def)

lemma Task_refuses_dict:
  "Task \<lparr>kw_agent = a, kw_description = d, kw_expected_output = PDict kvs, kw_context = c,
         kw_human_input = h, kw_output_file = f\<rparr> = Inl (ValidationError ''expected_output'')"
  by (simp add: Task_def)

lemma define_tasks_raises:
  "define_tasks rm d ags = Inl (ValidationError ''expected_output'')"
  by (cases ags) (simp add: define_tasks_def read_receipt_expected_output_def Task_refuses_dict)

subsection \<open>The main block\<close>

lemma main_load_failed:
  "load_receipt markdown w receipt_file_path = Inl e \<Longrightarrow>
   main markdown kickoff w =
     \<lparr>raised = Some e,
      g_receipt_file_path = Some receipt_file_path,
      g_receipt_markdown = None, g_today = None, g_agents = None, g_tasks = None,
      g_result = None, final = setup_environment w\<rparr>"
  by (simp add: main_def Let_def load_receipt_setup_environment)

lemma main_loaded:
  "load_receipt markdown w receipt_file_path = Inr rm \<Longrightarrow>
   main markdown kickoff w =
     \<lparr>raised = Some (ValidationError ''expected_output''),
      g_receipt_file_path = Some receipt_file_path,
      g_receipt_markdown = Some rm, g_today = Some ''2024-11-16'',
      g_agents = Some create_agents, g_tasks = None,
      g_result = None, final = setup_environment w\<rparr>"
  by (simp add: main_def Let_def load_receipt_setup_environment define_tasks_raises)

lemma main_globals:
  "g_receipt_file_path (main markdown kickoff w) = Some receipt_file_path"
  "g_receipt_markdown (main markdown kickoff w)
     = (case load_receipt markdown w receipt_file_path of Inl e \<Rightarrow> None | Inr rm \<Rightarrow> Some rm)"
  "g_today (main markdown kickoff w)
     = (case load_receipt markdown w receipt_file_path of Inl e \<Rightarrow> None | Inr rm \<Rightarrow> Some ''2024-11-16'')"
  "g_agents (main markdown kickoff w)
     = (case load_receipt markdown w receipt_file_path of Inl e \<Rightarrow> None | Inr rm \<Rightarrow> Some create_agents)"
  "g_tasks (main markdown kickoff w) = None"
  by (cases "load_receipt markdown w receipt_file_path";
      simp add: main_load_failed main_loaded)+


lemma run_crew_hands_over:
  "run_crew kickoff tasks (a1, a2, a3, a4) w
     = kickoff \<lparr>crew_agents = [a1, a2, a3, a4], crew_tasks = tasks, crew_verbose = True\<rparr> w"
  by (simp add: run_crew_def)

subsection \<open>The claims\<close>

text \<open>
  C1. The claim asks that \<open>define_tasks\<close> return four tasks chained by their
  contexts. The script gives every \<open>Task(...)\<close> a dictionary as
  \<open>expected_output\<close>, which the constructor refuses: for every receipt, date and
  agents \<open>define_tasks\<close> raises the validation error of its first task and returns
  no list, and the main block, which has no handler, ends there with no tasks bound and
  the crew never started.
\<close>

theorem define_tasks_raises_validation_error:
  "define_tasks ''milk'' ''2024-11-16'' create_agents = Inl (ValidationError ''expected_output'') \<and>
   define_tasks rm d ags = Inl (ValidationError ''expected_output'') \<and>
   raised (main markdown kickoff
      \<lparr>environ = Map.empty, files = [receipt_file_path \<mapsto> Text ''milk''], argv = [], stdout = []\<rparr>)
     = Some (ValidationError ''expected_output'') \<and>
   g_result (main markdown kickoff
      \<lparr>environ = Map.empty, files = [receipt_file_path \<mapsto> Text ''milk''], argv = [], stdout = []\<rparr>)
     = None"
proof -
  have "load_receipt markdown
      \<lparr>environ = Map.empty, files = [receipt_file_path \<mapsto> Text ''milk''], argv = [], stdout = []\<rparr>
      receipt_file_path = Inr (markdown ''milk'')"
    by (simp add: load_receipt_def)
  note m = main_loaded [OF this, of kickoff]
  show ?thesis unfolding m by (simp add: define_tasks_raises)
qed

text \<open>
  C2. When no file exists at the path, \<open>load_receipt\<close> returns no value: the
  file-open error comes out of it. In the main block nothing catches it either, so the
  run ends with that error right after the environment setup: no receipt, date, agents,
  tasks or result are bound, the crew is never started and nothing is printed.
\<close>

theorem load_receipt_missing_file:
  assumes "files w file_path = None"
  shows "load_receipt markdown w file_path = Inl (FileNotFoundError file_path) \<and>
         (file_path = receipt_file_path \<longrightarrow>
            main markdown kickoff w =
              \<lparr>raised = Some (FileNotFoundError receipt_file_path),
               g_receipt_file_path = Some receipt_file_path,
               g_receipt_markdown = None, g_today = None, g_agents = None, g_tasks = None,
               g_result = None, final = setup_environment w\<rparr>)"
proof -
  have l: "load_receipt markdown w file_path = Inl (FileNotFoundError file_path)"
    using assms by (simp add: load_receipt_def)
  show ?thesis
  proof (intro conjI impI)
    show "load_receipt markdown w file_path = Inl (FileNotFoundError file_path)"
      by (rule l)
  next
    assume "file_path = receipt_file_path"
    with l have "load_receipt markdown w receipt_file_path
                   = Inl (FileNotFoundError receipt_file_path)"
      by simp
    then show "main markdown kickoff w =
              \<lparr>raised = Some (FileNotFoundError receipt_file_path),
               g_receipt_file_path = Some receipt_file_path,
               g_receipt_markdown = None, g_today = None, g_agents = None, g_tasks = None,
               g_result = None, final = setup_environment w\<rparr>"
      by (rule main_load_failed)
  qed
qed

theorem load_receipt_missing_file_witness:
  "files \<lparr>environ = Map.empty, files = Map.empty, argv = [], stdout = []\<rparr> receipt_file_path = None \<and>
   load_receipt (\<lambda>s. ''<p>'' @ s @ ''</p>'')
      \<lparr>environ = Map.empty, files = Map.empty, argv = [], stdout = []\<rparr> receipt_file_path
     = Inl (FileNotFoundError receipt_file_path) \<and>
   raised (main (\<lambda>s. ''<p>'' @ s @ ''</p>'') (\<lambda>c w. (Inr (length (crew_tasks c)), w))
      \<lparr>environ = Map.empty, files = Map.empty, argv = [], stdout = []\<rparr>)
     = Some (FileNotFoundError receipt_file_path) \<and>
   g_tasks (main (\<lambda>s. ''<p>'' @ s @ ''</p>'') (\<lambda>c w. (Inr (length (crew_tasks c)), w))
      \<lparr>environ = Map.empty, files = Map.empty, argv = [], stdout = []\<rparr>)
     = None"
proof -
  have h: "files \<lparr>environ = Map.empty, files = Map.empty, argv = [], stdout = []\<rparr>
             receipt_file_path = None"
    by simp
  from load_receipt_missing_file [OF h, of "\<lambda>s. ''<p>'' @ s @ ''</p>''"
         "\<lambda>c w. (Inr (length (crew_tasks c)), w)"] h
  show ?thesis by simp
qed

text \<open>
  C3. \<open>setup_environment\<close> sets exactly the two variables \<open>OPENAI_API_KEY\<close> and
  \<open>LLAMA_OCR_API_KEY\<close> and leaves every other entry of the environment, and the rest
  of the process state, as it was. No other function of the script reads the
  \<open>LLAMA_OCR_API_KEY\<close> entry: \<open>load_receipt\<close> returns the same whatever that entry
  holds, \<open>create_agents\<close> and \<open>define_tasks\<close> take no process state, \<open>run_crew\<close>
  only passes the process state on to the framework, and what the main block binds
  before the crew starts is the same for every environment.
\<close>

theorem setup_environment_frame:
  "environ (setup_environment w) =
     (environ w)(''OPENAI_API_KEY'' \<mapsto> ''[YOUR OPENAI API KEY]'',
                 ''LLAMA_OCR_API_KEY'' \<mapsto> ''[YOUR LLAMA OCR API KEY]'') \<and>
   files (setup_environment w) = files w \<and>
   argv (setup_environment w) = argv w \<and>
   stdout (setup_environment w) = stdout w \<and>
   load_receipt markdown (w\<lparr>environ := (environ w)(''LLAMA_OCR_API_KEY'' := v)\<rparr>) file_path
     = load_receipt markdown w file_path \<and>
   run_crew kickoff tasks (a1, a2, a3, a4) w
     = kickoff \<lparr>crew_agents = [a1, a2, a3, a4], crew_tasks = tasks, crew_verbose = True\<rparr> w \<and>
   g_receipt_markdown (main markdown kickoff (w\<lparr>environ := e\<rparr>))
     = g_receipt_markdown (main markdown kickoff w) \<and>
   g_agents (main markdown kickoff (w\<lparr>environ := e\<rparr>)) = g_agents (main markdown kickoff w) \<and>
   g_tasks (main markdown kickoff (w\<lparr>environ := e\<rparr>)) = g_tasks (main markdown kickoff w)"
  by (simp add: environ_setup_environment files_setup_environment argv_setup_environment
        stdout_setup_environment run_crew_hands_over main_globals load_receipt_environ_update)

text \<open>
  C4. The claim asks for four built tasks of which the third and the fourth carry an
  output file. No task is built: \<open>define_tasks\<close> raises at its first
  \<open>Task(...)\<close>, before the two calls that name the output files are reached, so a run
  with the receipt in place binds no tasks and leaves both output paths without a file.
\<close>

theorem no_task_with_output_file:
  "(case define_tasks rm d ags of Inl e \<Rightarrow> [] | Inr ts \<Rightarrow> map task_output_file ts) = [] \<and>
   g_tasks (main markdown kickoff
      \<lparr>environ = Map.empty, files = [receipt_file_path \<mapsto> Text ''milk''], argv = [], stdout = []\<rparr>)
     = None \<and>
   files (final (main markdown kickoff
      \<lparr>environ = Map.empty, files = [receipt_file_path \<mapsto> Text ''milk''], argv = [], stdout = []\<rparr>))
      ''../data/grocery_management_agents_system/output/grocery_tracker.json'' = None \<and>
   files (final (main markdown kickoff
      \<lparr>environ = Map.empty, files = [receipt_file_path \<mapsto> Text ''milk''], argv = [], stdout = []\<rparr>))
      ''../data/grocery_management_agents_system/output/recipe_recommendation.json'' = None"
proof -
  have "load_receipt markdown
      \<lparr>environ = Map.empty, files = [receipt_file_path \<mapsto> Text ''milk''], argv = [], stdout = []\<rparr>
      receipt_file_path = Inr (markdown ''milk'')"
    by (simp add: load_receipt_def)
  note m = main_loaded [OF this, of kickoff]
  show ?thesis unfolding m
    by (simp add: define_tasks_raises files_setup_environment receipt_file_path_def)
qed





text \<open>
  C8. Whatever the environment held before, also real credentials under the two
  names, after \<open>setup_environment\<close> both \<open>OPENAI_API_KEY\<close> and
  \<open>LLAMA_OCR_API_KEY\<close> hold the placeholder literals.
\<close>

theorem setup_environment_overwrites:
  "environ (setup_environment w) ''OPENAI_API_KEY'' = Some ''[YOUR OPENAI API KEY]'' \<and>
   environ (setup_environment w) ''LLAMA_OCR_API_KEY'' = Some ''[YOUR LLAMA OCR API KEY]'' \<and>
   environ (setup_environment
      (w\<lparr>environ := (environ w)(''OPENAI_API_KEY'' \<mapsto> k1, ''LLAMA_OCR_API_KEY'' \<mapsto> k2)\<rparr>))
     = environ (setup_environment w)"
  by (simp add: setup_environment_def Let_def)

text \<open>
  C9. The claim asks for one task and one agent built with \<open>human_input=True\<close>.
  Neither is: \<open>Agent(...)\<close> drops the keyword \<open>human_input\<close>, so the fourth agent
  is the same with or without it and carries no such flag, and the third task, the one
  call that passes \<open>human_input=True\<close> to \<open>Task(...)\<close>, is never built, because
  \<open>define_tasks\<close> raises at its first task.
\<close>

theorem human_input_not_configured:
  "Agent (kw\<lparr>human_input := Some True\<rparr>) = Agent (kw\<lparr>human_input := None\<rparr>) \<and>
   snd (snd (snd create_agents)) =
     \<lparr>agent_role = ''Grocery Recipe Recommendation Specialist'',
      agent_goal = ''Recommend recipes using available ingredients. ''
          @ ''Suggest restocking recommendations if ingredients are insufficient.'',
      agent_backstory = ''This agent helps households make the most out of their remaining groceries by finding suitable recipes.'',
      agent_allow_delegation = False,
      agent_verbose = True,
      agent_tools = Some [WebsiteSearchTool ''https://www.americastestkitchen.com/recipes'']\<rparr> \<and>
   (case define_tasks rm d create_agents of
      Inl e \<Rightarrow> []
    | Inr ts \<Rightarrow> map task_human_input ts) = []"
  by (simp add: Agent_def create_agents_def recipe_recommendation_agent_def
        recipe_web_tool_def define_tasks_raises)


end
